theory Spec2Isabelle
  imports Main "HOL-Library.Word"
begin

section \<open>The collaborators of the server (package thrift, consumed at its interface)\<close>

text \<open>
  The server of \<^verbatim>\<open>server.go\<close> is written against the interfaces of the thrift library.
  Objects of the library are identified by a number (Go compares interface values holding
  pointers by identity); a nil interface value is \<open>None\<close>.
\<close>

type_synonym int32 = "32 word"

type_synonym TTransport = nat
type_synonym TProcessor = nat
type_synonym TServerTransport = nat

text \<open>
  Go's \<^verbatim>\<open>error\<close> values, as far as the type assertions of \<^verbatim>\<open>processRequests\<close> tell them
  apart. \<^verbatim>\<open>thrift.TTransportException\<close> has \<^verbatim>\<open>TypeId() int\<close> and
  \<^verbatim>\<open>thrift.TApplicationException\<close> has \<^verbatim>\<open>TypeId() int32\<close>, so no value implements both.
  A nil error is \<open>None\<close>.
\<close>

datatype error =
    TTransportException int
  | TApplicationException int32
  | OtherError string

text \<open>The two constants of package thrift that the server compares type ids with.\<close>

definition END_OF_FILE :: int where
  "END_OF_FILE = 4"

definition UNKNOWN_METHOD :: int32 where
  "UNKNOWN_METHOD = 1"

text \<open>
  A protocol value is a pointer to a protocol object, with the type of the object: the
  number is the address of the object, and two protocol values are the same instance
  exactly when they are equal. \<^verbatim>\<open>*thrift.THeaderProtocol\<close> is a pointer type: the
  interface value can hold a nil pointer of that type (\<open>THeaderProtocol None\<close>).
  \<open>NilProtocol\<close> is the nil interface value. A binary protocol is shown with its
  transport and its two strictness flags.
\<close>

datatype TProtocol =
    NilProtocol
  | THeaderProtocol "nat option"
  | TBinaryProtocol nat "TTransport option" bool bool
  | OtherProtocol nat

text \<open>
  Factories. \<^verbatim>\<open>thrift.NewTTransportFactory()\<close> is the library's factory whose
  \<^verbatim>\<open>GetTransport\<close> hands back the transport it is given;
  \<^verbatim>\<open>thrift.NewTBinaryProtocolFactoryDefault()\<close> builds binary protocols with
  \<^verbatim>\<open>strictRead = false\<close> and \<^verbatim>\<open>strictWrite = true\<close>;
  \<^verbatim>\<open>thrift.NewTHeaderProtocolFactory()\<close> builds header protocols;
  \<^verbatim>\<open>thrift.NewTProcessorFactory(p)\<close> hands out \<^verbatim>\<open>p\<close> for every connection.
  Any other implementation of the interface is given by its method.

  The protocol factories of the library allocate: every call of \<^verbatim>\<open>GetProtocol\<close> makes a
  new protocol object. A call of \<^verbatim>\<open>GetProtocol\<close> is therefore handed the address \<open>a\<close>
  that is free at the time of the call, and the factories of the library put the new
  object there, so that two calls give two instances. Another implementation gets the
  free address too and may use it or hand out an object that exists already.
\<close>

datatype TTransportFactory =
    NewTTransportFactory
  | TransportFactoryImpl "TTransport \<Rightarrow> TTransport option \<times> error option"

datatype TProtocolFactory =
    NewTBinaryProtocolFactoryDefault
  | NewTHeaderProtocolFactory
  | ProtocolFactoryImpl "nat \<Rightarrow> TTransport option \<Rightarrow> TProtocol"

datatype TProcessorFactory =
    NewTProcessorFactory TProcessor
  | ProcessorFactoryImpl "TTransport \<Rightarrow> TProcessor"

fun GetTransport :: "TTransportFactory \<Rightarrow> TTransport \<Rightarrow> TTransport option \<times> error option" where
  "GetTransport NewTTransportFactory t = (Some t, None)"
| "GetTransport (TransportFactoryImpl f) t = f t"

fun GetProtocol :: "TProtocolFactory \<Rightarrow> nat \<Rightarrow> TTransport option \<Rightarrow> TProtocol" where
  "GetProtocol NewTBinaryProtocolFactoryDefault a t = TBinaryProtocol a t False True"
| "GetProtocol NewTHeaderProtocolFactory a t = THeaderProtocol (Some a)"
| "GetProtocol (ProtocolFactoryImpl f) a t = f a t"

fun GetProcessor :: "TProcessorFactory \<Rightarrow> TTransport \<Rightarrow> TProcessor" where
  "GetProcessor (NewTProcessorFactory p) t = p"
| "GetProcessor (ProcessorFactoryImpl f) t = f t"

section \<open>Slices of strings and their backing arrays\<close>

text \<open>
  \<^verbatim>\<open>forwardHeaders []string\<close> is a Go slice: a window of \<open>len\<close> cells starting at \<open>off\<close>
  of a backing array, or nil. The backing arrays live in a store; an address is an index
  into the store, and allocating appends to it. (The capacity of a slice plays no part in
  \<^verbatim>\<open>len\<close>, \<^verbatim>\<open>copy\<close> or indexing and is left out.)
\<close>

datatype slice = NilSlice | Slice nat nat nat

type_synonym store = "string list list"

fun len :: "slice \<Rightarrow> nat" where
  "len NilSlice = 0"
| "len (Slice a off n) = n"

fun elems :: "store \<Rightarrow> slice \<Rightarrow> string list" where
  "elems h NilSlice = []"
| "elems h (Slice a off n) = take n (drop off (h ! a))"

fun valid_slice :: "store \<Rightarrow> slice \<Rightarrow> bool" where
  "valid_slice h NilSlice = True"
| "valid_slice h (Slice a off n) = (a < length h \<and> off + n \<le> length (h ! a))"

text \<open>\<^verbatim>\<open>make([]string, size)\<close>: a fresh array of \<open>n\<close> empty strings, where \<open>n\<close> is the size.\<close>

definition make_slice :: "store \<Rightarrow> nat \<Rightarrow> store \<times> slice" where
  "make_slice h n = (h @ [replicate n []], Slice (length h) 0 n)"

text \<open>
  \<^verbatim>\<open>copy(dst, src)\<close>: the first \<open>min (len dst) (len src)\<close> elements of \<open>src\<close> are
  written over the first cells of \<open>dst\<close>.
\<close>

fun copy :: "store \<Rightarrow> slice \<Rightarrow> slice \<Rightarrow> store" where
  "copy h (Slice a off n) src =
     (let k = min n (len src); xs = take k (elems h src); old = h ! a
      in h[a := take off old @ xs @ drop (off + k) old])"
| "copy h NilSlice src = h"

text \<open>
  An assignment \<^verbatim>\<open>arr[i] = v\<close> to a cell of the backing array at address \<open>a\<close>, as the
  holder of any slice of that array can do.
\<close>

definition assign :: "store \<Rightarrow> nat \<times> nat \<times> string \<Rightarrow> store" where
  "assign h w = (case w of (a, i, v) \<Rightarrow> h[a := (h ! a)[i := v]])"

section \<open>The server\<close>

text \<open>
  The struct \<^verbatim>\<open>Server\<close>. The mutex \<^verbatim>\<open>mu\<close> has no field: every section of code that runs
  with the mutex held is one atomic step of the model. \<^verbatim>\<open>connections\<close> is a Go map to
  \<^verbatim>\<open>struct{}\<close>, that is a set. The last four fields are not fields of the struct; they
  record what the server has done to its collaborators and which of its threads are
  alive: how often \<^verbatim>\<open>Close()\<close> was called on each connection, how often
  \<^verbatim>\<open>Interrupt()\<close> was called on the listener, the goroutines launched by
  \<^verbatim>\<open>innerAccept\<close> that have not finished (one entry per goroutine, named by its
  connection), and the number of callers of \<^verbatim>\<open>Stop\<close> blocked in \<^verbatim>\<open>wg.Wait()\<close>.
\<close>

record Server =
  closed :: int32
  wg :: int
  processorFactory :: TProcessorFactory
  serverTransport :: TServerTransport
  inputTransportFactory :: TTransportFactory
  outputTransportFactory :: TTransportFactory
  inputProtocolFactory :: TProtocolFactory
  outputProtocolFactory :: TProtocolFactory
  forwardHeaders :: slice
  connections :: "TTransport set"
  closes :: "TTransport \<Rightarrow> nat"
  interrupts :: nat
  sessions :: "TTransport list"
  waiting :: nat

subsection \<open>Constructors and accessors\<close>

definition NewServerFactory6 ::
  "TProcessorFactory \<Rightarrow> TServerTransport \<Rightarrow> TTransportFactory \<Rightarrow> TTransportFactory \<Rightarrow>
   TProtocolFactory \<Rightarrow> TProtocolFactory \<Rightarrow> Server" where
  "NewServerFactory6 pf st itf otf ipf opf =
     \<lparr> closed = 0, wg = 0,
       processorFactory = pf, serverTransport = st,
       inputTransportFactory = itf, outputTransportFactory = otf,
       inputProtocolFactory = ipf, outputProtocolFactory = opf,
       forwardHeaders = NilSlice, connections = {},
       closes = (\<lambda>c. 0), interrupts = 0, sessions = [], waiting = 0 \<rparr>"

definition NewServerFactory4 ::
  "TProcessorFactory \<Rightarrow> TServerTransport \<Rightarrow> TTransportFactory \<Rightarrow> TProtocolFactory \<Rightarrow> Server" where
  "NewServerFactory4 pf st transportFactory protocolFactory =
     NewServerFactory6 pf st transportFactory transportFactory protocolFactory protocolFactory"

definition NewServerFactory2 :: "TProcessorFactory \<Rightarrow> TServerTransport \<Rightarrow> Server" where
  "NewServerFactory2 pf st =
     NewServerFactory6 pf st NewTTransportFactory NewTTransportFactory
       NewTBinaryProtocolFactoryDefault NewTBinaryProtocolFactoryDefault"

definition NewServer6 ::
  "TProcessor \<Rightarrow> TServerTransport \<Rightarrow> TTransportFactory \<Rightarrow> TTransportFactory \<Rightarrow>
   TProtocolFactory \<Rightarrow> TProtocolFactory \<Rightarrow> Server" where
  "NewServer6 processor st itf otf ipf opf =
     NewServerFactory6 (NewTProcessorFactory processor) st itf otf ipf opf"

definition NewServer4 ::
  "TProcessor \<Rightarrow> TServerTransport \<Rightarrow> TTransportFactory \<Rightarrow> TProtocolFactory \<Rightarrow> Server" where
  "NewServer4 processor st transportFactory protocolFactory =
     NewServerFactory4 (NewTProcessorFactory processor) st transportFactory protocolFactory"

definition NewServer2 :: "TProcessor \<Rightarrow> TServerTransport \<Rightarrow> Server" where
  "NewServer2 processor st = NewServerFactory2 (NewTProcessorFactory processor) st"

definition ProcessorFactory :: "Server \<Rightarrow> TProcessorFactory" where
  "ProcessorFactory p = processorFactory p"

definition ServerTransport :: "Server \<Rightarrow> TServerTransport" where
  "ServerTransport p = serverTransport p"

definition InputTransportFactory :: "Server \<Rightarrow> TTransportFactory" where
  "InputTransportFactory p = inputTransportFactory p"

definition OutputTransportFactory :: "Server \<Rightarrow> TTransportFactory" where
  "OutputTransportFactory p = outputTransportFactory p"

definition InputProtocolFactory :: "Server \<Rightarrow> TProtocolFactory" where
  "InputProtocolFactory p = inputProtocolFactory p"

definition OutputProtocolFactory :: "Server \<Rightarrow> TProtocolFactory" where
  "OutputProtocolFactory p = outputProtocolFactory p"

subsection \<open>SetForwardHeaders\<close>

definition SetForwardHeaders :: "store \<Rightarrow> Server \<Rightarrow> slice \<Rightarrow> store \<times> Server" where
  "SetForwardHeaders h p headers =
     (let sz = len headers in
      if sz = 0 then (h, p\<lparr>forwardHeaders := NilSlice\<rparr>)
      else
        (case make_slice h sz of (h1, keys) \<Rightarrow>
           (copy h1 keys headers, p\<lparr>forwardHeaders := keys\<rparr>)))"

subsection \<open>The accept path\<close>

text \<open>\<^verbatim>\<open>conn.Close()\<close> on a connection: one more call recorded for it.\<close>

definition Close :: "TTransport \<Rightarrow> Server \<Rightarrow> Server" where
  "Close c p = p\<lparr>closes := (closes p)(c := closes p c + 1)\<rparr>"

text \<open>
  \<^verbatim>\<open>innerAccept\<close>, from the moment \<^verbatim>\<open>p.serverTransport.Accept()\<close> has returned
  \<open>(client, err)\<close>: the rest of the function runs with the mutex held. Launching the
  goroutine adds its connection to \<open>sessions\<close>.
\<close>

definition innerAccept ::
  "Server \<Rightarrow> TTransport option \<times> error option \<Rightarrow> (int32 \<times> error option) \<times> Server" where
  "innerAccept p acc =
     (case acc of (client, err) \<Rightarrow>
        if closed p \<noteq> 0 then
          ((closed p, None), (case client of None \<Rightarrow> p | Some c \<Rightarrow> Close c p))
        else if err \<noteq> None then ((0, err), p)
        else
          (case client of
             None \<Rightarrow> ((0, None), p)
           | Some c \<Rightarrow>
               ((0, None),
                p\<lparr>wg := wg p + 1,
                  connections := insert c (connections p),
                  sessions := c # sessions p\<rparr>)))"

text \<open>
  The deferred function of the goroutine launched by \<^verbatim>\<open>innerAccept\<close>, run with the mutex
  held when \<^verbatim>\<open>processRequests\<close> has returned: \<^verbatim>\<open>delete(p.connections, client)\<close> and
  \<^verbatim>\<open>p.wg.Done()\<close>.
\<close>

definition session_exit :: "TTransport \<Rightarrow> Server \<Rightarrow> Server" where
  "session_exit client p =
     p\<lparr>connections := connections p - {client},
       wg := wg p - 1,
       sessions := remove1 client (sessions p)\<rparr>"

subsection \<open>Stop\<close>

text \<open>
  \<^verbatim>\<open>Stop\<close> up to \<^verbatim>\<open>p.mu.Unlock()\<close>. The result is \<open>Some None\<close> when the function has
  returned nil, and \<open>None\<close> when it goes on to \<^verbatim>\<open>p.wg.Wait()\<close>. The loop over the map
  closes and deletes every connection that is in the map when the loop starts.
\<close>

definition Stop_locked :: "Server \<Rightarrow> error option option \<times> Server" where
  "Stop_locked p =
     (if closed p \<noteq> 0 then (Some None, p)
      else
        (None,
         p\<lparr>closed := 1,
           interrupts := interrupts p + 1,
           closes := (\<lambda>c. if c \<in> connections p then closes p c + 1 else closes p c),
           connections := {}\<rparr>))"

text \<open>
  \<^verbatim>\<open>p.wg.Wait(); return nil\<close>: returns once the counter is zero, and blocks (\<open>None\<close>)
  as long as it is not.
\<close>

definition Stop_wait :: "Server \<Rightarrow> error option option" where
  "Stop_wait p = (if wg p = 0 then Some None else None)"

text \<open>\<^verbatim>\<open>Stop\<close> when no other thread takes a step during the call.\<close>

definition Stop :: "Server \<Rightarrow> error option option \<times> Server" where
  "Stop p =
     (case Stop_locked p of
        (Some r, p') \<Rightarrow> (Some r, p')
      | (None, p') \<Rightarrow> (Stop_wait p', p'))"

subsection \<open>Threads\<close>

text \<open>
  The steps that the threads of a server take on the shared state, each atomic because it
  runs with the mutex held (or, for the return of \<^verbatim>\<open>wg.Wait()\<close>, is a single test of the
  counter): an iteration of the accept loop with what \<^verbatim>\<open>Accept()\<close> returned, the exit of
  the goroutine serving a connection, a call of \<^verbatim>\<open>Stop\<close> up to the unlock, and the return
  of a caller of \<^verbatim>\<open>Stop\<close> from \<^verbatim>\<open>wg.Wait()\<close>. A step that cannot be taken (the exit of a
  goroutine that does not exist, a return from \<^verbatim>\<open>Wait\<close> while the counter is not zero)
  leaves the state as it is.
\<close>

datatype action =
    Accept "TTransport option" "error option"
  | SessionExit TTransport
  | StopCall
  | StopWaitReturn

fun step :: "Server \<Rightarrow> action \<Rightarrow> Server" where
  "step p (Accept client err) = snd (innerAccept p (client, err))"
| "step p (SessionExit c) = (if c \<in> set (sessions p) then session_exit c p else p)"
| "step p StopCall =
     (case Stop_locked p of
        (Some r, p') \<Rightarrow> p'
      | (None, p') \<Rightarrow> p'\<lparr>waiting := waiting p' + 1\<rparr>)"
| "step p StopWaitReturn =
     (if 0 < waiting p \<and> Stop_wait p \<noteq> None then p\<lparr>waiting := waiting p - 1\<rparr> else p)"

fun run :: "Server \<Rightarrow> action list \<Rightarrow> Server" where
  "run p [] = p"
| "run p (a # sched) = run (step p a) sched"

text \<open>A call of \<^verbatim>\<open>Stop\<close> returns to its caller with this step, taken in state \<open>p\<close>.\<close>

fun Stop_returns :: "Server \<Rightarrow> action \<Rightarrow> bool" where
  "Stop_returns p StopCall = (fst (Stop_locked p) \<noteq> None)"
| "Stop_returns p StopWaitReturn = (0 < waiting p \<and> Stop_wait p \<noteq> None)"
| "Stop_returns p a = False"

subsection \<open>AcceptLoop and Serve\<close>

text \<open>
  \<^verbatim>\<open>AcceptLoop\<close> on a schedule: the \<open>Accept\<close> steps are the iterations of this loop, the
  other steps are taken by other threads in between. The result is \<open>Some err\<close> when the
  loop has returned \<open>err\<close>, and \<open>None\<close> when the schedule ends with the loop still
  blocked in \<^verbatim>\<open>Accept()\<close>.
\<close>

fun AcceptLoop :: "Server \<Rightarrow> action list \<Rightarrow> error option option \<times> Server" where
  "AcceptLoop p [] = (None, p)"
| "AcceptLoop p (Accept client e # sched) =
     (case innerAccept p (client, e) of
        ((closed', err), p') \<Rightarrow>
          if err \<noteq> None then (Some err, p')
          else if closed' \<noteq> 0 then (Some None, p')
          else AcceptLoop p' sched)"
| "AcceptLoop p (a # sched) = AcceptLoop (step p a) sched"

text \<open>
  \<^verbatim>\<open>Serve\<close>; \<open>listen\<close> is what \<^verbatim>\<open>p.serverTransport.Listen()\<close> returns. The value of
  \<^verbatim>\<open>p.AcceptLoop()\<close> is not used.
\<close>

definition Serve :: "Server \<Rightarrow> error option \<Rightarrow> action list \<Rightarrow> error option option \<times> Server" where
  "Serve p listen sched =
     (let err = listen in
      if err \<noteq> None then (Some err, p)
      else
        (case AcceptLoop p sched of
           (None, p') \<Rightarrow> (None, p')
         | (Some r, p') \<Rightarrow> (Some None, p')))"

section \<open>The session of one connection\<close>

text \<open>
  A call to a collaborator either returns or panics. What the collaborators do in one
  iteration of the loop of \<^verbatim>\<open>processRequests\<close> is an \<open>iteration\<close>: the value that
  \<^verbatim>\<open>atomic.LoadInt32(&p.closed)\<close> reads (another thread may have called \<^verbatim>\<open>Stop\<close>),
  what \<^verbatim>\<open>ReadFrame\<close> and \<^verbatim>\<open>GetReadHeaders\<close> of the header protocol give, and what
  \<^verbatim>\<open>processor.Process\<close> gives. A session is run on a list of iterations; when the list
  ends the session is still serving.
\<close>

datatype 'a call = Returns 'a | Panics

record iteration =
  load_closed :: int32
  ReadFrame :: "error option call"
  GetReadHeaders :: "(string \<times> string) list"
  Process :: "(bool \<times> error option) call"

datatype Context =
    Background
  | AddReadTHeaderToContext Context "(string \<times> string) list"
  | SetWriteHeaderList Context slice

datatype direction = Input | Output

text \<open>The calls that a session makes to its collaborators, in order.\<close>

datatype event =
    CallGetProcessor TTransport
  | CallGetTransport direction TTransport
  | CallGetProtocol direction "TTransport option"
  | CallReadFrame nat
  | CallProcess TProcessor Context TProtocol TProtocol
  | CallClose TTransport
  | LogPanic

text \<open>The calls of \<^verbatim>\<open>GetProtocol\<close> among the calls of a session.\<close>

fun is_GetProtocol :: "event \<Rightarrow> bool" where
  "is_GetProtocol (CallGetProtocol d t) = True"
| "is_GetProtocol e = False"

text \<open>
  The type assertions \<^verbatim>\<open>x.(T)\<close> in their two-result form: the value as a \<^verbatim>\<open>T\<close> and
  \<open>True\<close>, or the zero value of \<^verbatim>\<open>T\<close> (nil) and \<open>False\<close>.
\<close>

fun asTHeaderProtocol :: "TProtocol \<Rightarrow> nat option \<times> bool" where
  "asTHeaderProtocol (THeaderProtocol ptr) = (ptr, True)"
| "asTHeaderProtocol q = (None, False)"

fun asTTransportException :: "error option \<Rightarrow> error option \<times> bool" where
  "asTTransportException (Some (TTransportException t)) = (Some (TTransportException t), True)"
| "asTTransportException e = (None, False)"

fun asTApplicationException :: "error option \<Rightarrow> error option \<times> bool" where
  "asTApplicationException (Some (TApplicationException t)) = (Some (TApplicationException t), True)"
| "asTApplicationException e = (None, False)"

text \<open>
  \<^verbatim>\<open>TypeId()\<close> of the two exception interfaces. The server calls them only on a value
  whose assertion succeeded.
\<close>

fun TransportTypeId :: "error option \<Rightarrow> int" where
  "TransportTypeId (Some (TTransportException t)) = t"
| "TransportTypeId e = 0"

fun ApplicationTypeId :: "error option \<Rightarrow> int32" where
  "ApplicationTypeId (Some (TApplicationException t)) = t"
| "ApplicationTypeId e = 0"

text \<open>How the loop of \<^verbatim>\<open>processRequests\<close> is left.\<close>

datatype exit = Return "error option" | Panic | Serving

text \<open>
  Lines 268 to 281: the context of one request. \<open>Inl\<close> leaves the loop (\<^verbatim>\<open>ReadFrame\<close>
  failed or panicked), \<open>Inr\<close> is the context.
\<close>

definition request_context :: "Server \<Rightarrow> nat option \<Rightarrow> iteration \<Rightarrow> (exit + Context) \<times> event list" where
  "request_context p headerProtocol it =
     (let ctx = Background in
      case headerProtocol of
        None \<Rightarrow> (Inr ctx, [])
      | Some h \<Rightarrow>
          (case ReadFrame it of
             Panics \<Rightarrow> (Inl Panic, [CallReadFrame h])
           | Returns (Some err) \<Rightarrow> (Inl (Return (Some err)), [CallReadFrame h])
           | Returns None \<Rightarrow>
               (let ctx = AddReadTHeaderToContext ctx (GetReadHeaders it);
                    ctx = SetWriteHeaderList ctx (forwardHeaders p)
                in (Inr ctx, [CallReadFrame h]))))"

text \<open>
  The \<^verbatim>\<open>for\<close> loop of \<^verbatim>\<open>processRequests\<close> (lines 263 to 296). In
  \<^verbatim>\<open>if err, ok := err.(thrift.TTransportException); ... else if err != nil\<close> the
  \<^verbatim>\<open>err\<close> of the \<^verbatim>\<open>else if\<close> is the one declared by the assertion (\<open>err1\<close>), which is
  in scope in the \<^verbatim>\<open>else\<close> branch; after the statement \<^verbatim>\<open>err\<close> and \<^verbatim>\<open>ok\<close> are again
  the results of \<^verbatim>\<open>Process\<close>.
\<close>

fun serve_loop ::
  "Server \<Rightarrow> TProcessor \<Rightarrow> TProtocol \<Rightarrow> TProtocol \<Rightarrow> nat option \<Rightarrow> iteration list \<Rightarrow>
   exit \<times> event list" where
  "serve_loop p processor inputProtocol outputProtocol headerProtocol [] = (Serving, [])"
| "serve_loop p processor inputProtocol outputProtocol headerProtocol (it # its) =
     (if load_closed it \<noteq> 0 then (Return None, [])
      else
        (case request_context p headerProtocol it of
           (Inl x, tr) \<Rightarrow> (x, tr)
         | (Inr ctx, tr) \<Rightarrow>
             (let tr' = tr @ [CallProcess processor ctx inputProtocol outputProtocol] in
              case Process it of
                Panics \<Rightarrow> (Panic, tr')
              | Returns (ok, err) \<Rightarrow>
                  (case asTTransportException err of
                     (err1, ok1) \<Rightarrow>
                       if ok1 \<and> TransportTypeId err1 = END_OF_FILE then (Return None, tr')
                       else if err1 \<noteq> None then (Return err1, tr')
                       else
                         (case asTApplicationException err of
                            (err2, ok2) \<Rightarrow>
                              if ok2 \<and> ApplicationTypeId err2 = UNKNOWN_METHOD then
                                (case serve_loop p processor inputProtocol outputProtocol
                                        headerProtocol its of
                                   (x, tr2) \<Rightarrow> (x, tr' @ tr2))
                              else if \<not> ok then (Return None, tr')
                              else
                                (case serve_loop p processor inputProtocol outputProtocol
                                        headerProtocol its of
                                   (x, tr2) \<Rightarrow> (x, tr' @ tr2)))))))"

text \<open>
  The deferred calls of \<^verbatim>\<open>processRequests\<close>, in the order in which they run (last
  deferred first): \<^verbatim>\<open>outputTransport.Close()\<close>, \<^verbatim>\<open>inputTransport.Close()\<close>, each
  deferred only for a transport that is not nil, then the function that recovers.
\<close>

definition deferred_closes :: "TTransport option \<Rightarrow> TTransport option \<Rightarrow> event list" where
  "deferred_closes inputTransport outputTransport =
     (case outputTransport of None \<Rightarrow> [] | Some t \<Rightarrow> [CallClose t]) @
     (case inputTransport of None \<Rightarrow> [] | Some t \<Rightarrow> [CallClose t])"

text \<open>
  Lines 251 to 296: the defers are registered, the loop runs, the deferred calls run when
  the function returns or panics. A recovered panic makes \<^verbatim>\<open>processRequests\<close> return the
  zero value of its result, nil. \<open>tr\<close> is what the session has done before. The result is
  \<open>None\<close> while the session is still serving.
\<close>

definition serve ::
  "Server \<Rightarrow> TProcessor \<Rightarrow> TTransport option \<Rightarrow> TProtocol \<Rightarrow> TTransport option \<Rightarrow> TProtocol \<Rightarrow>
   nat option \<Rightarrow> event list \<Rightarrow> iteration list \<Rightarrow> error option option \<times> event list" where
  "serve p processor inputTransport inputProtocol outputTransport outputProtocol headerProtocol tr its =
     (case serve_loop p processor inputProtocol outputProtocol headerProtocol its of
        (Serving, trl) \<Rightarrow> (None, tr @ trl)
      | (Return r, trl) \<Rightarrow>
          (Some r, tr @ trl @ deferred_closes inputTransport outputTransport)
      | (Panic, trl) \<Rightarrow>
          (Some None, tr @ trl @ deferred_closes inputTransport outputTransport @ [LogPanic]))"

text \<open>
  \<^verbatim>\<open>processRequests\<close>: the result and the calls made. \<open>fresh\<close> is the first address
  that is free when the session starts: the first call of \<^verbatim>\<open>GetProtocol\<close> is handed
  \<open>fresh\<close> and the second, if there is one, the next address.
\<close>

definition processRequests ::
  "Server \<Rightarrow> TTransport \<Rightarrow> nat \<Rightarrow> iteration list \<Rightarrow> error option option \<times> event list" where
  "processRequests p client fresh its =
     (let processor = GetProcessor (processorFactory p) client;
          (inputTransport, err) = GetTransport (inputTransportFactory p) client;
          tr0 = [CallGetProcessor client, CallGetTransport Input client]
      in
      if err \<noteq> None then (Some err, tr0)
      else
        (let inputProtocol = GetProtocol (inputProtocolFactory p) fresh inputTransport;
             tr1 = tr0 @ [CallGetProtocol Input inputTransport];
             (headerProtocol, ok) = asTHeaderProtocol inputProtocol
         in
         if ok then
           (let outputProtocol = inputProtocol in
            serve p processor inputTransport inputProtocol None outputProtocol headerProtocol
              tr1 its)
         else
           (let (oTrans, err) = GetTransport (outputTransportFactory p) client;
                tr2 = tr1 @ [CallGetTransport Output client]
            in
            if err \<noteq> None then (Some err, tr2)
            else
              (let outputTransport = oTrans;
                   outputProtocol =
                     GetProtocol (outputProtocolFactory p) (Suc fresh) outputTransport;
                   tr3 = tr2 @ [CallGetProtocol Output outputTransport]
               in
               serve p processor inputTransport inputProtocol outputTransport outputProtocol
                 headerProtocol tr3 its))))"

section \<open>Properties\<close>

subsection \<open>Constructors\<close>

text \<open>
  C9. Every constructor delegates to \<^verbatim>\<open>NewServerFactory6\<close>. The two-argument forms give a
  server whose input and output transport factories are the library's identity factory
  (\<^verbatim>\<open>GetTransport\<close> returns the transport it is given) and whose input and output
  protocol factories are the default binary protocol factory; the four-argument forms put
  the one transport factory and the one protocol factory into both the input and the
  output position.
\<close>

theorem constructors_delegate:
  "NewServerFactory2 pf st =
     NewServerFactory6 pf st NewTTransportFactory NewTTransportFactory
       NewTBinaryProtocolFactoryDefault NewTBinaryProtocolFactoryDefault
   \<and> NewServerFactory4 pf st tf prf = NewServerFactory6 pf st tf tf prf prf
   \<and> NewServer2 pr st =
       NewServerFactory6 (NewTProcessorFactory pr) st NewTTransportFactory NewTTransportFactory
         NewTBinaryProtocolFactoryDefault NewTBinaryProtocolFactoryDefault
   \<and> NewServer4 pr st tf prf = NewServerFactory6 (NewTProcessorFactory pr) st tf tf prf prf
   \<and> NewServer6 pr st itf otf ipf opf =
       NewServerFactory6 (NewTProcessorFactory pr) st itf otf ipf opf
   \<and> InputTransportFactory (NewServerFactory2 pf st) = NewTTransportFactory
   \<and> OutputTransportFactory (NewServerFactory2 pf st) = NewTTransportFactory
   \<and> GetTransport (InputTransportFactory (NewServerFactory2 pf st)) t = (Some t, None)
   \<and> GetTransport (OutputTransportFactory (NewServerFactory2 pf st)) t = (Some t, None)
   \<and> InputProtocolFactory (NewServerFactory2 pf st) = NewTBinaryProtocolFactoryDefault
   \<and> OutputProtocolFactory (NewServerFactory2 pf st) = NewTBinaryProtocolFactoryDefault
   \<and> InputTransportFactory (NewServerFactory4 pf st tf prf) = tf
   \<and> OutputTransportFactory (NewServerFactory4 pf st tf prf) = tf
   \<and> InputProtocolFactory (NewServerFactory4 pf st tf prf) = prf
   \<and> OutputProtocolFactory (NewServerFactory4 pf st tf prf) = prf"
  by (simp add: NewServerFactory2_def NewServerFactory4_def NewServerFactory6_def
      NewServer2_def NewServer4_def NewServer6_def InputTransportFactory_def
      OutputTransportFactory_def InputProtocolFactory_def OutputProtocolFactory_def)

subsection \<open>The accept loop\<close>

lemma closed_NewServerFactory6 [simp]:
  "closed (NewServerFactory6 pf st itf otf ipf opf) = 0"
  by (simp add: NewServerFactory6_def)

text \<open>
  C10. While the server is running (\<open>closed p = 0\<close>), an \<^verbatim>\<open>Accept()\<close> that returns a nil
  connection and a nil error changes nothing: \<^verbatim>\<open>innerAccept\<close> returns \<open>(0, nil)\<close> and the
  same state (no connection registered, counter and registry as before, no goroutine
  launched), and \<^verbatim>\<open>AcceptLoop\<close> goes on with the next \<^verbatim>\<open>Accept()\<close>.
\<close>

theorem accept_nil_nil_continues:
  "closed p = 0 \<Longrightarrow>
     innerAccept p (None, None) = ((0, None), p)
     \<and> step p (Accept None None) = p
     \<and> AcceptLoop p (Accept None None # sched) = AcceptLoop p sched"
  by (simp add: innerAccept_def)

theorem accept_nil_nil_continues_witness:
  "closed (NewServerFactory6 (NewTProcessorFactory 0) 0 NewTTransportFactory NewTTransportFactory
       NewTBinaryProtocolFactoryDefault NewTBinaryProtocolFactoryDefault) = 0
   \<and> innerAccept (NewServerFactory6 (NewTProcessorFactory 0) 0 NewTTransportFactory
         NewTTransportFactory NewTBinaryProtocolFactoryDefault NewTBinaryProtocolFactoryDefault)
       (None, None)
     = ((0, None), NewServerFactory6 (NewTProcessorFactory 0) 0 NewTTransportFactory
         NewTTransportFactory NewTBinaryProtocolFactoryDefault NewTBinaryProtocolFactoryDefault)
   \<and> fst (AcceptLoop (NewServerFactory6 (NewTProcessorFactory 0) 0 NewTTransportFactory
         NewTTransportFactory NewTBinaryProtocolFactoryDefault NewTBinaryProtocolFactoryDefault)
       [Accept None None, Accept None (Some (OtherError ''accept failed''))])
     = Some (Some (OtherError ''accept failed''))"
proof -
  let ?p = "NewServerFactory6 (NewTProcessorFactory 0) 0 NewTTransportFactory
         NewTTransportFactory NewTBinaryProtocolFactoryDefault NewTBinaryProtocolFactoryDefault"
  have c: "closed ?p = 0" by simp
  have "fst (AcceptLoop ?p [Accept None (Some (OtherError ''accept failed''))])
          = Some (Some (OtherError ''accept failed''))"
    by (simp add: innerAccept_def)
  with accept_nil_nil_continues [OF c, of "[Accept None (Some (OtherError ''accept failed''))]"] c
  show ?thesis by simp
qed

text \<open>
  C3. When the closed flag is set at the moment the result of \<^verbatim>\<open>Accept()\<close> is examined,
  the iteration is a clean shutdown whatever \<^verbatim>\<open>Accept()\<close> returned: \<^verbatim>\<open>innerAccept\<close>
  returns the flag and a nil error, a connection that was produced gets one \<^verbatim>\<open>Close()\<close>
  and is neither put into the registry nor served (registry, goroutines and counter are
  as before), \<^verbatim>\<open>AcceptLoop\<close> returns nil, and so does \<^verbatim>\<open>Serve\<close>.
\<close>

theorem accept_while_closed:
  "closed p \<noteq> 0 \<Longrightarrow>
     fst (innerAccept p (client, err)) = (closed p, None)
     \<and> connections (snd (innerAccept p (client, err))) = connections p
     \<and> sessions (snd (innerAccept p (client, err))) = sessions p
     \<and> wg (snd (innerAccept p (client, err))) = wg p
     \<and> (case client of
          None \<Rightarrow> snd (innerAccept p (client, err)) = p
        | Some c \<Rightarrow> closes (snd (innerAccept p (client, err))) c = closes p c + 1)
     \<and> AcceptLoop p (Accept client err # sched) = (Some None, snd (innerAccept p (client, err)))
     \<and> Serve p None (Accept client err # sched) = (Some None, snd (innerAccept p (client, err)))"
  by (simp add: innerAccept_def Close_def Serve_def split: option.split)

theorem accept_while_closed_witness:
  "closed (snd (Stop_locked (NewServerFactory6 (NewTProcessorFactory 0) 0 NewTTransportFactory
       NewTTransportFactory NewTBinaryProtocolFactoryDefault NewTBinaryProtocolFactoryDefault))) \<noteq> 0
   \<and> fst (AcceptLoop
        (snd (Stop_locked (NewServerFactory6 (NewTProcessorFactory 0) 0 NewTTransportFactory
           NewTTransportFactory NewTBinaryProtocolFactoryDefault NewTBinaryProtocolFactoryDefault)))
        [Accept (Some 5) (Some (OtherError ''interrupted''))]) = Some None
   \<and> fst (Serve
        (snd (Stop_locked (NewServerFactory6 (NewTProcessorFactory 0) 0 NewTTransportFactory
           NewTTransportFactory NewTBinaryProtocolFactoryDefault NewTBinaryProtocolFactoryDefault)))
        None [Accept (Some 5) (Some (OtherError ''interrupted''))]) = Some None
   \<and> connections (snd (innerAccept
        (snd (Stop_locked (NewServerFactory6 (NewTProcessorFactory 0) 0 NewTTransportFactory
           NewTTransportFactory NewTBinaryProtocolFactoryDefault NewTBinaryProtocolFactoryDefault)))
        (Some 5, Some (OtherError ''interrupted'')))) = {}
   \<and> closes (snd (innerAccept
        (snd (Stop_locked (NewServerFactory6 (NewTProcessorFactory 0) 0 NewTTransportFactory
           NewTTransportFactory NewTBinaryProtocolFactoryDefault NewTBinaryProtocolFactoryDefault)))
        (Some 5, Some (OtherError ''interrupted'')))) 5 = 1"
proof -
  let ?p = "snd (Stop_locked (NewServerFactory6 (NewTProcessorFactory 0) 0 NewTTransportFactory
       NewTTransportFactory NewTBinaryProtocolFactoryDefault NewTBinaryProtocolFactoryDefault))"
  have c: "closed ?p \<noteq> 0"
    by (simp add: Stop_locked_def)
  have r: "connections ?p = {}" "closes ?p 5 = 0"
    by (simp_all add: Stop_locked_def NewServerFactory6_def)
  from accept_while_closed [OF c, of "Some 5" "Some (OtherError ''interrupted'')" "[]"] c r
  show ?thesis by simp
qed

subsection \<open>Stop\<close>

text \<open>
  C5. \<^verbatim>\<open>Stop\<close> is idempotent: in a state whose closed flag is set, a call of \<^verbatim>\<open>Stop\<close>
  returns nil at once and leaves the whole state as it is (no further \<^verbatim>\<open>Interrupt()\<close>, no
  \<^verbatim>\<open>Close()\<close>, registry and flag unchanged), also as a step among other threads.
\<close>

theorem Stop_idempotent:
  "closed p \<noteq> 0 \<Longrightarrow>
     Stop p = (Some None, p) \<and> step p StopCall = p \<and> Stop_returns p StopCall"
  by (simp add: Stop_def Stop_locked_def)

theorem Stop_idempotent_witness:
  "closed (snd (Stop (NewServerFactory6 (NewTProcessorFactory 0) 0 NewTTransportFactory
       NewTTransportFactory NewTBinaryProtocolFactoryDefault NewTBinaryProtocolFactoryDefault))) \<noteq> 0
   \<and> Stop (snd (Stop (NewServerFactory6 (NewTProcessorFactory 0) 0 NewTTransportFactory
       NewTTransportFactory NewTBinaryProtocolFactoryDefault NewTBinaryProtocolFactoryDefault)))
     = (Some None, snd (Stop (NewServerFactory6 (NewTProcessorFactory 0) 0 NewTTransportFactory
       NewTTransportFactory NewTBinaryProtocolFactoryDefault NewTBinaryProtocolFactoryDefault)))
   \<and> interrupts (snd (Stop (snd (Stop (NewServerFactory6 (NewTProcessorFactory 0) 0
       NewTTransportFactory NewTTransportFactory NewTBinaryProtocolFactoryDefault
       NewTBinaryProtocolFactoryDefault))))) = 1"
proof -
  let ?p = "snd (Stop (NewServerFactory6 (NewTProcessorFactory 0) 0 NewTTransportFactory
       NewTTransportFactory NewTBinaryProtocolFactoryDefault NewTBinaryProtocolFactoryDefault))"
  have c: "closed ?p \<noteq> 0"
    by (simp add: Stop_def Stop_locked_def)
  have i: "interrupts ?p = 1"
    by (simp add: Stop_def Stop_locked_def NewServerFactory6_def)
  from Stop_idempotent [OF c] c i show ?thesis by simp
qed

text \<open>
  C2. The claim is that \<^verbatim>\<open>Serve\<close> returns the error of a failed \<^verbatim>\<open>Accept()\<close> while the
  server is running. \<^verbatim>\<open>AcceptLoop\<close> returns that error, but \<^verbatim>\<open>Serve\<close> drops the value of
  \<^verbatim>\<open>p.AcceptLoop()\<close> and returns nil: on a fresh server whose \<^verbatim>\<open>Listen()\<close> succeeds and
  whose first \<^verbatim>\<open>Accept()\<close> fails, \<^verbatim>\<open>AcceptLoop\<close> gives the accept error and \<^verbatim>\<open>Serve\<close>
  gives nil.
\<close>

theorem Serve_drops_accept_error:
  "closed (NewServerFactory6 (NewTProcessorFactory 0) 0 NewTTransportFactory NewTTransportFactory
       NewTBinaryProtocolFactoryDefault NewTBinaryProtocolFactoryDefault) = 0
   \<and> fst (AcceptLoop
        (NewServerFactory6 (NewTProcessorFactory 0) 0 NewTTransportFactory NewTTransportFactory
           NewTBinaryProtocolFactoryDefault NewTBinaryProtocolFactoryDefault)
        [Accept None (Some (OtherError ''accept failed''))])
       = Some (Some (OtherError ''accept failed''))
   \<and> fst (Serve
        (NewServerFactory6 (NewTProcessorFactory 0) 0 NewTTransportFactory NewTTransportFactory
           NewTBinaryProtocolFactoryDefault NewTBinaryProtocolFactoryDefault)
        None [Accept None (Some (OtherError ''accept failed''))])
       = Some None"
  by (simp add: Serve_def innerAccept_def)

text \<open>What the accept path does in general: the loop returns the error, \<^verbatim>\<open>Serve\<close> never does.\<close>

lemma AcceptLoop_returns_accept_error:
  "closed p = 0 \<Longrightarrow> AcceptLoop p (Accept client (Some e) # sched) = (Some (Some e), p)"
  by (simp add: innerAccept_def)

lemma Serve_nil_after_Listen:
  "fst (Serve p None sched) = None \<or> fst (Serve p None sched) = Some None"
  by (simp add: Serve_def split: prod.split option.split)

subsection \<open>Shutdown\<close>

text \<open>
  Three facts hold in every state that the threads of a server can reach: once the closed
  flag is set the registry is empty; the counter of the wait group is the number of
  goroutines that have not finished; a caller of \<^verbatim>\<open>Stop\<close> waits only after the flag is
  set.
\<close>

lemma step_invariant:
  assumes "closed p \<noteq> 0 \<longrightarrow> connections p = {}"
    and "wg p = int (length (sessions p))"
    and "0 < waiting p \<longrightarrow> closed p \<noteq> 0"
  shows "(closed (step p a) \<noteq> 0 \<longrightarrow> connections (step p a) = {})
         \<and> wg (step p a) = int (length (sessions (step p a)))
         \<and> (0 < waiting (step p a) \<longrightarrow> closed (step p a) \<noteq> 0)"
proof (cases a)
  case (Accept client err)
  with assms show ?thesis
    by (auto simp: innerAccept_def Close_def split: option.split)
next
  case (SessionExit c)
  show ?thesis
  proof (cases "c \<in> set (sessions p)")
    case True
    then have "0 < length (sessions p)" by (cases "sessions p") auto
    then have "int (length (sessions p) - 1) = int (length (sessions p)) - 1"
      by arith
    with True assms SessionExit show ?thesis
      by (auto simp: session_exit_def length_remove1)
  next
    case False
    with assms SessionExit show ?thesis by simp
  qed
next
  case StopCall
  with assms show ?thesis
    by (auto simp: Stop_locked_def)
next
  case StopWaitReturn
  with assms show ?thesis
    by (auto simp: Stop_wait_def)
qed

lemma run_invariant:
  assumes "closed p \<noteq> 0 \<longrightarrow> connections p = {}"
    and "wg p = int (length (sessions p))"
    and "0 < waiting p \<longrightarrow> closed p \<noteq> 0"
  shows "(closed (run p sched) \<noteq> 0 \<longrightarrow> connections (run p sched) = {})
         \<and> wg (run p sched) = int (length (sessions (run p sched)))
         \<and> (0 < waiting (run p sched) \<longrightarrow> closed (run p sched) \<noteq> 0)"
  using assms
proof (induction sched arbitrary: p)
  case Nil
  then show ?case by simp
next
  case (Cons a sched)
  from step_invariant [OF Cons.prems, of a]
  have "closed (step p a) \<noteq> 0 \<longrightarrow> connections (step p a) = {}"
    and "wg (step p a) = int (length (sessions (step p a)))"
    and "0 < waiting (step p a) \<longrightarrow> closed (step p a) \<noteq> 0"
    by blast+
  from Cons.IH [OF this] show ?case by simp
qed

lemma reachable_invariant:
  "(closed (run (NewServerFactory6 pf st itf otf ipf opf) sched) \<noteq> 0 \<longrightarrow>
      connections (run (NewServerFactory6 pf st itf otf ipf opf) sched) = {})
   \<and> wg (run (NewServerFactory6 pf st itf otf ipf opf) sched)
       = int (length (sessions (run (NewServerFactory6 pf st itf otf ipf opf) sched)))
   \<and> (0 < waiting (run (NewServerFactory6 pf st itf otf ipf opf) sched) \<longrightarrow>
        closed (run (NewServerFactory6 pf st itf otf ipf opf) sched) \<noteq> 0)"
  by (rule run_invariant) (simp_all add: NewServerFactory6_def)

text \<open>
  C4. Let \<open>p\<close> be a state reached from a new server by any schedule of its threads.
  If the closed flag is not set in \<open>p\<close>, a call of \<^verbatim>\<open>Stop\<close> (the first one) sets the flag,
  calls \<^verbatim>\<open>Interrupt()\<close> once, calls \<^verbatim>\<open>Close()\<close> once on every connection of the registry
  and on no other, empties the registry, and goes on to \<^verbatim>\<open>wg.Wait()\<close>, which returns
  exactly when the counter is zero. And whenever a call of \<^verbatim>\<open>Stop\<close> returns, the registry
  is empty and the flag is set; when it is the call that waited, the counter is zero and no
  goroutine of a session is left.
\<close>

theorem Stop_returns_registry_empty:
  assumes "p = run (NewServerFactory6 pf st itf otf ipf opf) sched"
  shows "(closed p = 0 \<longrightarrow>
            fst (Stop_locked p) = None
            \<and> closed (snd (Stop_locked p)) = 1
            \<and> interrupts (snd (Stop_locked p)) = interrupts p + 1
            \<and> closes (snd (Stop_locked p)) c = closes p c + (if c \<in> connections p then 1 else 0)
            \<and> connections (snd (Stop_locked p)) = {}
            \<and> (Stop_wait (snd (Stop_locked p)) = Some None) = (wg p = 0))
         \<and> (Stop_returns p a \<longrightarrow>
              connections (step p a) = {}
              \<and> closed (step p a) \<noteq> 0
              \<and> (a = StopWaitReturn \<longrightarrow> wg (step p a) = 0 \<and> sessions (step p a) = []))"
proof -
  from reachable_invariant [of pf st itf otf ipf opf sched] assms
  have inv: "closed p \<noteq> 0 \<longrightarrow> connections p = {}"
    "wg p = int (length (sessions p))"
    "0 < waiting p \<longrightarrow> closed p \<noteq> 0"
    by simp_all
  have sweep: "closed p = 0 \<longrightarrow>
            fst (Stop_locked p) = None
            \<and> closed (snd (Stop_locked p)) = 1
            \<and> interrupts (snd (Stop_locked p)) = interrupts p + 1
            \<and> closes (snd (Stop_locked p)) c = closes p c + (if c \<in> connections p then 1 else 0)
            \<and> connections (snd (Stop_locked p)) = {}
            \<and> (Stop_wait (snd (Stop_locked p)) = Some None) = (wg p = 0)"
    by (simp add: Stop_locked_def Stop_wait_def)
  have ret: "Stop_returns p a \<longrightarrow>
              connections (step p a) = {}
              \<and> closed (step p a) \<noteq> 0
              \<and> (a = StopWaitReturn \<longrightarrow> wg (step p a) = 0 \<and> sessions (step p a) = [])"
  proof (cases a)
    case StopCall
    with inv show ?thesis by (auto simp: Stop_locked_def)
  next
    case StopWaitReturn
    with inv show ?thesis by (auto simp: Stop_wait_def split: if_splits)
  qed simp_all
  from sweep ret show ?thesis by blast
qed

theorem Stop_returns_registry_empty_witness:
  "closed (run (NewServerFactory6 (NewTProcessorFactory 0) 0 NewTTransportFactory
       NewTTransportFactory NewTBinaryProtocolFactoryDefault NewTBinaryProtocolFactoryDefault)
       [Accept (Some 1) None, Accept (Some 2) None]) = 0
   \<and> connections (run (NewServerFactory6 (NewTProcessorFactory 0) 0 NewTTransportFactory
       NewTTransportFactory NewTBinaryProtocolFactoryDefault NewTBinaryProtocolFactoryDefault)
       [Accept (Some 1) None, Accept (Some 2) None]) = {1, 2}
   \<and> closes (snd (Stop_locked (run (NewServerFactory6 (NewTProcessorFactory 0) 0
       NewTTransportFactory NewTTransportFactory NewTBinaryProtocolFactoryDefault
       NewTBinaryProtocolFactoryDefault) [Accept (Some 1) None, Accept (Some 2) None]))) 2 = 1
   \<and> connections (snd (Stop_locked (run (NewServerFactory6 (NewTProcessorFactory 0) 0
       NewTTransportFactory NewTTransportFactory NewTBinaryProtocolFactoryDefault
       NewTBinaryProtocolFactoryDefault) [Accept (Some 1) None, Accept (Some 2) None]))) = {}
   \<and> Stop_returns (run (NewServerFactory6 (NewTProcessorFactory 0) 0 NewTTransportFactory
       NewTTransportFactory NewTBinaryProtocolFactoryDefault NewTBinaryProtocolFactoryDefault)
       [Accept (Some 1) None, Accept (Some 2) None, StopCall, SessionExit 1, SessionExit 2])
       StopWaitReturn
   \<and> connections (step (run (NewServerFactory6 (NewTProcessorFactory 0) 0 NewTTransportFactory
       NewTTransportFactory NewTBinaryProtocolFactoryDefault NewTBinaryProtocolFactoryDefault)
       [Accept (Some 1) None, Accept (Some 2) None, StopCall, SessionExit 1, SessionExit 2])
       StopWaitReturn) = {}
   \<and> sessions (step (run (NewServerFactory6 (NewTProcessorFactory 0) 0 NewTTransportFactory
       NewTTransportFactory NewTBinaryProtocolFactoryDefault NewTBinaryProtocolFactoryDefault)
       [Accept (Some 1) None, Accept (Some 2) None, StopCall, SessionExit 1, SessionExit 2])
       StopWaitReturn) = []"
proof -
  let ?init = "NewServerFactory6 (NewTProcessorFactory 0) 0 NewTTransportFactory
       NewTTransportFactory NewTBinaryProtocolFactoryDefault NewTBinaryProtocolFactoryDefault"
  let ?p = "run ?init [Accept (Some 1) None, Accept (Some 2) None]"
  let ?q = "run ?init [Accept (Some 1) None, Accept (Some 2) None, StopCall, SessionExit 1,
       SessionExit 2]"
  have c: "closed ?p = 0"
    by (simp add: innerAccept_def NewServerFactory6_def)
  have k: "connections ?p = {1, 2}" "closes ?p 2 = 0"
    by (auto simp add: innerAccept_def NewServerFactory6_def)
  have r: "Stop_returns ?q StopWaitReturn"
    by code_simp
  from Stop_returns_registry_empty [OF refl, of "NewTProcessorFactory 0" 0 NewTTransportFactory
      NewTTransportFactory NewTBinaryProtocolFactoryDefault NewTBinaryProtocolFactoryDefault
      "[Accept (Some 1) None, Accept (Some 2) None]" 2 StopCall] c k
  have a: "closes (snd (Stop_locked ?p)) 2 = 1" "connections (snd (Stop_locked ?p)) = {}"
    by simp_all
  from Stop_returns_registry_empty [OF refl, of "NewTProcessorFactory 0" 0 NewTTransportFactory
      NewTTransportFactory NewTBinaryProtocolFactoryDefault NewTBinaryProtocolFactoryDefault
      "[Accept (Some 1) None, Accept (Some 2) None, StopCall, SessionExit 1, SessionExit 2]"
      0 StopWaitReturn] r
  have b: "connections (step ?q StopWaitReturn) = {}" "sessions (step ?q StopWaitReturn) = []"
    by blast+
  from c k a r b show ?thesis by blast
qed

subsection \<open>The session\<close>

text \<open>
  C1. When the closed flag is not set, the context of the request could be built, and
  \<^verbatim>\<open>processor.Process\<close> returns a \<^verbatim>\<open>TApplicationException\<close> of type
  \<^verbatim>\<open>UNKNOWN_METHOD\<close> (with whatever \<^verbatim>\<open>ok\<close>), the loop does not exit: it behaves as this
  call of \<^verbatim>\<open>Process\<close> followed by the loop on the iterations that remain. If nothing
  remains the loop is still serving, and \<^verbatim>\<open>processRequests\<close> has not returned.
\<close>

theorem unknown_method_continues:
  assumes "load_closed it = 0"
    and "request_context p headerProtocol it = (Inr ctx, tr)"
    and "Process it = Returns (ok, Some (TApplicationException UNKNOWN_METHOD))"
  shows "serve_loop p processor inputProtocol outputProtocol headerProtocol (it # its) =
           (fst (serve_loop p processor inputProtocol outputProtocol headerProtocol its),
            tr @ [CallProcess processor ctx inputProtocol outputProtocol] @
            snd (serve_loop p processor inputProtocol outputProtocol headerProtocol its))
         \<and> fst (serve_loop p processor inputProtocol outputProtocol headerProtocol [it]) = Serving
         \<and> fst (serve p processor inputTransport inputProtocol outputTransport outputProtocol
                  headerProtocol tr0 [it]) = None"
proof -
  have step: "\<And>its. serve_loop p processor inputProtocol outputProtocol headerProtocol (it # its) =
           (fst (serve_loop p processor inputProtocol outputProtocol headerProtocol its),
            tr @ [CallProcess processor ctx inputProtocol outputProtocol] @
            snd (serve_loop p processor inputProtocol outputProtocol headerProtocol its))"
    using assms by (simp add: split_beta)
  from step [of "[]"]
  have one: "serve_loop p processor inputProtocol outputProtocol headerProtocol [it] =
           (Serving, tr @ [CallProcess processor ctx inputProtocol outputProtocol])"
    by simp
  then have "fst (serve p processor inputTransport inputProtocol outputTransport outputProtocol
                  headerProtocol tr0 [it]) = None"
    by (simp add: serve_def)
  with step [of its] one show ?thesis by simp
qed

theorem unknown_method_continues_witness:
  "serve_loop (NewServer2 0 0) 0 (TBinaryProtocol 0 (Some 7) False True)
       (TBinaryProtocol 0 (Some 7) False True) None
       [\<lparr>load_closed = 0, ReadFrame = Returns None, GetReadHeaders = [],
          Process = Returns (False, Some (TApplicationException UNKNOWN_METHOD))\<rparr>,
        \<lparr>load_closed = 0, ReadFrame = Returns None, GetReadHeaders = [],
          Process = Returns (False, None)\<rparr>]
     = (Return None,
        [CallProcess 0 Background (TBinaryProtocol 0 (Some 7) False True)
           (TBinaryProtocol 0 (Some 7) False True),
         CallProcess 0 Background (TBinaryProtocol 0 (Some 7) False True)
           (TBinaryProtocol 0 (Some 7) False True)])"
proof -
  let ?it = "\<lparr>load_closed = 0, ReadFrame = Returns None, GetReadHeaders = [],
          Process = Returns (False, Some (TApplicationException UNKNOWN_METHOD))\<rparr>"
  let ?it2 = "\<lparr>load_closed = 0, ReadFrame = Returns (None :: error option), GetReadHeaders = [],
          Process = Returns (False, None :: error option)\<rparr>"
  have a: "load_closed ?it = 0" by simp
  have b: "request_context (NewServer2 0 0) None ?it = (Inr Background, [])"
    by (simp add: request_context_def)
  have c: "Process ?it = Returns (False, Some (TApplicationException UNKNOWN_METHOD))" by simp
  have d: "serve_loop (NewServer2 0 0) 0 (TBinaryProtocol 0 (Some 7) False True)
       (TBinaryProtocol 0 (Some 7) False True) None [?it2]
     = (Return None, [CallProcess 0 Background (TBinaryProtocol 0 (Some 7) False True)
           (TBinaryProtocol 0 (Some 7) False True)])"
    by (simp add: request_context_def)
  from unknown_method_continues [OF a b c, of 0 "TBinaryProtocol 0 (Some 7) False True"
      "TBinaryProtocol 0 (Some 7) False True" "[?it2]"] d
  show ?thesis by simp
qed

text \<open>What the loop itself calls: \<^verbatim>\<open>ReadFrame\<close>, and \<^verbatim>\<open>Process\<close> on the two protocols.\<close>

lemma request_context_events:
  "e \<in> set (snd (request_context p h it)) \<Longrightarrow> \<exists>n. e = CallReadFrame n"
  by (auto simp: request_context_def split: option.splits call.splits)

lemma serve_loop_events:
  "e \<in> set (snd (serve_loop p pr i out h its)) \<Longrightarrow>
     (\<exists>n. e = CallReadFrame n) \<or> (\<exists>ctx. e = CallProcess pr ctx i out)"
proof (induction its)
  case Nil
  then show ?case by simp
next
  case (Cons it its)
  obtain r tr where rc: "request_context p h it = (r, tr)"
    by (cases "request_context p h it")
  with request_context_events [of _ p h it]
  have tr: "\<And>e. e \<in> set tr \<Longrightarrow> \<exists>n. e = CallReadFrame n" by simp
  obtain x tl where sl: "serve_loop p pr i out h its = (x, tl)"
    by (cases "serve_loop p pr i out h its")
  with Cons.IH
  have tl: "e \<in> set tl \<Longrightarrow> (\<exists>n. e = CallReadFrame n) \<or> (\<exists>ctx. e = CallProcess pr ctx i out)"
    by simp
  from Cons.prems rc sl show ?case
    by (auto simp: Let_def split: if_splits sum.splits call.splits prod.splits dest: tr tl)
qed

lemma deferred_closes_events:
  "e \<in> set (deferred_closes iT oT) \<Longrightarrow> \<exists>t. e = CallClose t"
  by (auto simp: deferred_closes_def split: option.splits)

lemma serve_events:
  "e \<in> set (snd (serve p pr iT i oT out h tr its)) \<Longrightarrow>
     e \<in> set tr \<or> (\<exists>n. e = CallReadFrame n) \<or> (\<exists>ctx. e = CallProcess pr ctx i out)
     \<or> (\<exists>t. e = CallClose t) \<or> e = LogPanic"
proof -
  assume e: "e \<in> set (snd (serve p pr iT i oT out h tr its))"
  obtain x tl where sl: "serve_loop p pr i out h its = (x, tl)"
    by (cases "serve_loop p pr i out h its")
  with serve_loop_events [of _ p pr i out h its]
  have tl: "\<And>e. e \<in> set tl \<Longrightarrow>
      (\<exists>n. e = CallReadFrame n) \<or> (\<exists>ctx. e = CallProcess pr ctx i out)"
    by simp
  from e sl show ?thesis
    by (cases x) (auto simp: serve_def dest: tl deferred_closes_events)
qed

text \<open>Once the defers are registered, every return of the session closes both transports.\<close>

lemma serve_closes_transports:
  assumes "fst (serve p pr iT i oT out h tr its) = Some r"
  shows "(\<forall>t. iT = Some t \<longrightarrow> CallClose t \<in> set (snd (serve p pr iT i oT out h tr its)))
       \<and> (\<forall>t. oT = Some t \<longrightarrow> CallClose t \<in> set (snd (serve p pr iT i oT out h tr its)))"
proof -
  obtain x tl where sl: "serve_loop p pr i out h its = (x, tl)"
    by (cases "serve_loop p pr i out h its")
  with assms show ?thesis
    by (cases x) (auto simp: serve_def deferred_closes_def)
qed

lemma processRequests_closes_after_setup:
  assumes "GetTransport (inputTransportFactory p) client = (inputTransport, None)"
    and "snd (asTHeaderProtocol (GetProtocol (inputProtocolFactory p) fresh inputTransport))
         \<or> GetTransport (outputTransportFactory p) client = (outputTransport, None)"
    and "fst (processRequests p client fresh its) = Some r"
  shows "(\<forall>t. inputTransport = Some t \<longrightarrow>
            CallClose t \<in> set (snd (processRequests p client fresh its)))
       \<and> (\<not> snd (asTHeaderProtocol (GetProtocol (inputProtocolFactory p) fresh inputTransport))
            \<longrightarrow>
            (\<forall>t. outputTransport = Some t \<longrightarrow>
               CallClose t \<in> set (snd (processRequests p client fresh its))))"
proof (cases "snd (asTHeaderProtocol (GetProtocol (inputProtocolFactory p) fresh inputTransport))")
  case True
  let ?inP = "GetProtocol (inputProtocolFactory p) fresh inputTransport"
  let ?s = "serve p (GetProcessor (processorFactory p) client) inputTransport ?inP None ?inP
      (fst (asTHeaderProtocol ?inP))
      [CallGetProcessor client, CallGetTransport Input client,
       CallGetProtocol Input inputTransport] its"
  from True assms(1) have eq: "processRequests p client fresh its = ?s"
    by (simp add: processRequests_def Let_def split_beta)
  with assms(3) have "fst ?s = Some r" by simp
  from serve_closes_transports [OF this] eq True show ?thesis by simp
next
  case False
  let ?inP = "GetProtocol (inputProtocolFactory p) fresh inputTransport"
  let ?s = "serve p (GetProcessor (processorFactory p) client) inputTransport ?inP
      outputTransport (GetProtocol (outputProtocolFactory p) (Suc fresh) outputTransport)
      (fst (asTHeaderProtocol ?inP))
      [CallGetProcessor client, CallGetTransport Input client,
       CallGetProtocol Input inputTransport, CallGetTransport Output client,
       CallGetProtocol Output outputTransport] its"
  from False assms(1,2) have eq: "processRequests p client fresh its = ?s"
    by (simp add: processRequests_def Let_def split_beta)
  with assms(3) have "fst ?s = Some r" by simp
  from serve_closes_transports [OF this] eq show ?thesis by simp
qed

text \<open>
  C6. The claim is that the input transport is closed on every exit path on which it was
  created, setup failures included. The two \<^verbatim>\<open>Close()\<close> calls are deferred only after
  the setup (lines 257 to 262), and the failure of the output transport factory returns
  before that (line 245). On a server whose input transport factory wraps connection 7 into
  transport 8 and whose output transport factory fails, \<^verbatim>\<open>processRequests\<close> returns the
  error of the factory having called neither \<^verbatim>\<open>Close()\<close> on transport 8 nor anything else
  after the failed call.
\<close>

theorem setup_failure_leaks_input_transport:
  "fst (processRequests
         (NewServerFactory6 (NewTProcessorFactory 0) 0
            (TransportFactoryImpl (\<lambda>c. (Some (c + 1), None)))
            (TransportFactoryImpl (\<lambda>c. (None, Some (OtherError ''no output transport''))))
            NewTBinaryProtocolFactoryDefault NewTBinaryProtocolFactoryDefault)
         7 fresh its)
     = Some (Some (OtherError ''no output transport''))
   \<and> snd (processRequests
         (NewServerFactory6 (NewTProcessorFactory 0) 0
            (TransportFactoryImpl (\<lambda>c. (Some (c + 1), None)))
            (TransportFactoryImpl (\<lambda>c. (None, Some (OtherError ''no output transport''))))
            NewTBinaryProtocolFactoryDefault NewTBinaryProtocolFactoryDefault)
         7 fresh its)
     = [CallGetProcessor 7, CallGetTransport Input 7, CallGetProtocol Input (Some 8),
        CallGetTransport Output 7]
   \<and> CallClose 8 \<notin> set (snd (processRequests
         (NewServerFactory6 (NewTProcessorFactory 0) 0
            (TransportFactoryImpl (\<lambda>c. (Some (c + 1), None)))
            (TransportFactoryImpl (\<lambda>c. (None, Some (OtherError ''no output transport''))))
            NewTBinaryProtocolFactoryDefault NewTBinaryProtocolFactoryDefault)
         7 fresh its))"
  by (simp add: processRequests_def NewServerFactory6_def)

text \<open>
  The factories of the library give a new instance at every call: protocols built at two
  addresses are two protocol values.
\<close>

lemma library_factories_allocate:
  "a \<noteq> b \<Longrightarrow>
     GetProtocol NewTHeaderProtocolFactory a t \<noteq> GetProtocol NewTHeaderProtocolFactory b t'
     \<and> GetProtocol NewTBinaryProtocolFactoryDefault a t
         \<noteq> GetProtocol NewTBinaryProtocolFactoryDefault b t'"
  by simp

text \<open>
  After the setup a session calls no factory: what \<^verbatim>\<open>serve\<close> adds to the calls made
  before holds no call of \<^verbatim>\<open>GetProtocol\<close>.
\<close>

lemma serve_loop_no_GetProtocol:
  "filter is_GetProtocol (snd (serve_loop p pr i out h its)) = []"
proof -
  have "\<forall>e \<in> set (snd (serve_loop p pr i out h its)). \<not> is_GetProtocol e"
    using serve_loop_events [of _ p pr i out h its] by fastforce
  then show ?thesis by (simp add: filter_empty_conv)
qed

lemma deferred_closes_no_GetProtocol:
  "filter is_GetProtocol (deferred_closes iT oT) = []"
  by (simp add: deferred_closes_def split: option.split)

lemma serve_GetProtocol_calls:
  "filter is_GetProtocol (snd (serve p pr iT i oT out h tr its)) = filter is_GetProtocol tr"
proof -
  obtain x tl where sl: "serve_loop p pr i out h its = (x, tl)"
    by (cases "serve_loop p pr i out h its")
  with serve_loop_no_GetProtocol [of p pr i out h its]
  have "filter is_GetProtocol tl = []" by simp
  with sl show ?thesis
    by (cases x) (simp_all add: serve_def deferred_closes_no_GetProtocol)
qed

text \<open>
  C7. Let the input transport factory succeed and \<open>inputProtocol\<close> be the protocol that
  the call of the input protocol factory builds (at the free address \<open>fresh\<close>).

  If \<open>inputProtocol\<close> is a \<^verbatim>\<open>*thrift.THeaderProtocol\<close>: every call of \<^verbatim>\<open>Process\<close> in
  the session gets this very instance as input and as output; that one call of the input
  protocol factory is the only call of \<^verbatim>\<open>GetProtocol\<close> that the session makes, so no
  second protocol is built by any factory; and no output transport is built.

  Otherwise the output transport factory is called on the connection, and when it
  succeeds the session makes exactly two calls of \<^verbatim>\<open>GetProtocol\<close>, the one of the input
  factory and one of the output protocol factory on the output transport, and every call
  of \<^verbatim>\<open>Process\<close> gets \<open>inputProtocol\<close> as input and the protocol built by that second
  call (at the next address) as output.
\<close>

theorem header_protocol_shared:
  assumes "GetTransport (inputTransportFactory p) client = (inputTransport, None)"
    and "inputProtocol = GetProtocol (inputProtocolFactory p) fresh inputTransport"
    and "tr = snd (processRequests p client fresh its)"
  shows "(snd (asTHeaderProtocol inputProtocol) \<longrightarrow>
            (\<forall>pr ctx i out. CallProcess pr ctx i out \<in> set tr \<longrightarrow>
               i = inputProtocol \<and> out = inputProtocol)
            \<and> filter is_GetProtocol tr = [CallGetProtocol Input inputTransport]
            \<and> (\<forall>c. CallGetTransport Output c \<notin> set tr)
            \<and> (\<forall>t. CallGetProtocol Output t \<notin> set tr))
       \<and> (\<not> snd (asTHeaderProtocol inputProtocol) \<longrightarrow>
            CallGetTransport Output client \<in> set tr
            \<and> (\<forall>oTrans. GetTransport (outputTransportFactory p) client = (oTrans, None) \<longrightarrow>
                 filter is_GetProtocol tr =
                   [CallGetProtocol Input inputTransport, CallGetProtocol Output oTrans]
                 \<and> CallGetProtocol Output oTrans \<in> set tr
                 \<and> (\<forall>pr ctx i out. CallProcess pr ctx i out \<in> set tr \<longrightarrow>
                      i = inputProtocol
                      \<and> out = GetProtocol (outputProtocolFactory p) (Suc fresh) oTrans)))"
proof (cases "snd (asTHeaderProtocol inputProtocol)")
  case True
  let ?tr1 = "[CallGetProcessor client, CallGetTransport Input client,
      CallGetProtocol Input inputTransport]"
  from True assms have tr: "tr = snd (serve p (GetProcessor (processorFactory p) client)
      inputTransport inputProtocol None inputProtocol (fst (asTHeaderProtocol inputProtocol))
      ?tr1 its)"
    by (simp add: processRequests_def Let_def split_beta)
  have "\<And>e. e \<in> set tr \<Longrightarrow>
      e \<in> set ?tr1 \<or> (\<exists>n. e = CallReadFrame n)
      \<or> (\<exists>ctx. e = CallProcess (GetProcessor (processorFactory p) client) ctx
             inputProtocol inputProtocol)
      \<or> (\<exists>t. e = CallClose t) \<or> e = LogPanic"
    unfolding tr by (rule serve_events)
  then have ev: "(\<forall>pr ctx i out. CallProcess pr ctx i out \<in> set tr \<longrightarrow>
               i = inputProtocol \<and> out = inputProtocol)
            \<and> (\<forall>c. CallGetTransport Output c \<notin> set tr)
            \<and> (\<forall>t. CallGetProtocol Output t \<notin> set tr)"
    by fastforce
  have "filter is_GetProtocol tr = [CallGetProtocol Input inputTransport]"
    unfolding tr by (simp add: serve_GetProtocol_calls)
  with ev True show ?thesis by blast
next
  case False
  have called: "CallGetTransport Output client \<in> set tr"
  proof (cases "snd (GetTransport (outputTransportFactory p) client)")
    case None
    with False assms show ?thesis
      by (simp add: processRequests_def Let_def split_beta serve_def split: prod.split exit.split)
  next
    case (Some e)
    with False assms show ?thesis
      by (simp add: processRequests_def Let_def split_beta)
  qed
  have built: "filter is_GetProtocol tr =
                   [CallGetProtocol Input inputTransport, CallGetProtocol Output oTrans]
                 \<and> CallGetProtocol Output oTrans \<in> set tr
                 \<and> (\<forall>pr ctx i out. CallProcess pr ctx i out \<in> set tr \<longrightarrow>
                      i = inputProtocol
                      \<and> out = GetProtocol (outputProtocolFactory p) (Suc fresh) oTrans)"
    if ok: "GetTransport (outputTransportFactory p) client = (oTrans, None)" for oTrans
  proof -
    let ?tr3 = "[CallGetProcessor client, CallGetTransport Input client,
      CallGetProtocol Input inputTransport, CallGetTransport Output client,
      CallGetProtocol Output oTrans]"
    from False assms ok have tr: "tr = snd (serve p (GetProcessor (processorFactory p) client)
        inputTransport inputProtocol oTrans
        (GetProtocol (outputProtocolFactory p) (Suc fresh) oTrans)
        (fst (asTHeaderProtocol inputProtocol)) ?tr3 its)"
      by (simp add: processRequests_def Let_def split_beta)
    have ev: "\<And>e. e \<in> set tr \<Longrightarrow>
        e \<in> set ?tr3 \<or> (\<exists>n. e = CallReadFrame n)
        \<or> (\<exists>ctx. e = CallProcess (GetProcessor (processorFactory p) client) ctx
               inputProtocol (GetProtocol (outputProtocolFactory p) (Suc fresh) oTrans))
        \<or> (\<exists>t. e = CallClose t) \<or> e = LogPanic"
      unfolding tr by (rule serve_events)
    have calls: "filter is_GetProtocol tr =
        [CallGetProtocol Input inputTransport, CallGetProtocol Output oTrans]"
      unfolding tr by (simp add: serve_GetProtocol_calls)
    have "CallGetProtocol Output oTrans \<in> set tr"
      unfolding tr by (simp add: serve_def split: prod.split exit.split)
    moreover from ev have "\<forall>pr ctx i out. CallProcess pr ctx i out \<in> set tr \<longrightarrow>
                      i = inputProtocol
                      \<and> out = GetProtocol (outputProtocolFactory p) (Suc fresh) oTrans"
      by fastforce
    ultimately show ?thesis using calls by simp
  qed
  from False called built show ?thesis by blast
qed

theorem header_protocol_shared_witness:
  "GetTransport (inputTransportFactory
       (NewServer4 0 0 NewTTransportFactory NewTHeaderProtocolFactory)) 7 = (Some 7, None)
   \<and> snd (asTHeaderProtocol (GetProtocol (inputProtocolFactory
       (NewServer4 0 0 NewTTransportFactory NewTHeaderProtocolFactory)) 100 (Some 7)))
   \<and> snd (processRequests (NewServer4 0 0 NewTTransportFactory NewTHeaderProtocolFactory) 7 100
         [\<lparr>load_closed = 0, ReadFrame = Returns None, GetReadHeaders = [(''k'', ''v'')],
            Process = Returns (False, None)\<rparr>])
     = [CallGetProcessor 7, CallGetTransport Input 7, CallGetProtocol Input (Some 7),
        CallReadFrame 100,
        CallProcess 0
          (SetWriteHeaderList (AddReadTHeaderToContext Background [(''k'', ''v'')]) NilSlice)
          (THeaderProtocol (Some 100)) (THeaderProtocol (Some 100)),
        CallClose 7]
   \<and> filter is_GetProtocol
        (snd (processRequests (NewServer4 0 0 NewTTransportFactory NewTHeaderProtocolFactory)
           7 100
           [\<lparr>load_closed = 0, ReadFrame = Returns None, GetReadHeaders = [(''k'', ''v'')],
              Process = Returns (False, None)\<rparr>]))
     = [CallGetProtocol Input (Some 7)]
   \<and> GetProtocol (outputProtocolFactory
         (NewServer4 0 0 NewTTransportFactory NewTHeaderProtocolFactory)) 101 (Some 7)
     \<noteq> THeaderProtocol (Some 100)
   \<and> \<not> snd (asTHeaderProtocol (GetProtocol (inputProtocolFactory (NewServer2 0 0)) 100
         (Some 7)))
   \<and> GetTransport (outputTransportFactory (NewServer2 0 0)) 7 = (Some 7, None)
   \<and> filter is_GetProtocol
        (snd (processRequests (NewServer2 0 0) 7 100
           [\<lparr>load_closed = 0, ReadFrame = Returns None, GetReadHeaders = [],
              Process = Returns (False, None)\<rparr>]))
     = [CallGetProtocol Input (Some 7), CallGetProtocol Output (Some 7)]
   \<and> CallProcess 0 Background (TBinaryProtocol 100 (Some 7) False True)
         (TBinaryProtocol 101 (Some 7) False True)
       \<in> set (snd (processRequests (NewServer2 0 0) 7 100
           [\<lparr>load_closed = 0, ReadFrame = Returns None, GetReadHeaders = [],
              Process = Returns (False, None)\<rparr>]))"
proof -
  let ?hp = "NewServer4 0 0 NewTTransportFactory NewTHeaderProtocolFactory"
  let ?bp = "NewServer2 0 0"
  let ?hits = "[\<lparr>load_closed = 0, ReadFrame = Returns (None :: error option),
      GetReadHeaders = [(''k'', ''v'')], Process = Returns (False, None :: error option)\<rparr>]"
  let ?bits = "[\<lparr>load_closed = 0, ReadFrame = Returns (None :: error option),
      GetReadHeaders = [], Process = Returns (False, None :: error option)\<rparr>]"
  have h1: "GetTransport (inputTransportFactory ?hp) 7 = (Some 7, None)"
    by (simp add: NewServer4_def NewServerFactory4_def NewServerFactory6_def)
  have h2: "snd (asTHeaderProtocol (GetProtocol (inputProtocolFactory ?hp) 100 (Some 7)))"
    by (simp add: NewServer4_def NewServerFactory4_def NewServerFactory6_def)
  have h3: "snd (processRequests ?hp 7 100 ?hits)
     = [CallGetProcessor 7, CallGetTransport Input 7, CallGetProtocol Input (Some 7),
        CallReadFrame 100,
        CallProcess 0
          (SetWriteHeaderList (AddReadTHeaderToContext Background [(''k'', ''v'')]) NilSlice)
          (THeaderProtocol (Some 100)) (THeaderProtocol (Some 100)),
        CallClose 7]"
    by (simp add: processRequests_def NewServer4_def NewServerFactory4_def
        NewServerFactory6_def serve_def request_context_def deferred_closes_def Let_def)
  from header_protocol_shared [OF h1 refl refl, of 100 ?hits] h2
  have h4: "filter is_GetProtocol (snd (processRequests ?hp 7 100 ?hits))
      = [CallGetProtocol Input (Some 7)]"
    by blast
  have h5: "GetProtocol (outputProtocolFactory ?hp) 101 (Some 7) \<noteq> THeaderProtocol (Some 100)"
    by (simp add: NewServer4_def NewServerFactory4_def NewServerFactory6_def)
  have b1: "GetTransport (inputTransportFactory ?bp) 7 = (Some 7, None)"
    by (simp add: NewServer2_def NewServerFactory2_def NewServerFactory6_def)
  have b2: "\<not> snd (asTHeaderProtocol (GetProtocol (inputProtocolFactory ?bp) 100 (Some 7)))"
    by (simp add: NewServer2_def NewServerFactory2_def NewServerFactory6_def)
  have b3: "GetTransport (outputTransportFactory ?bp) 7 = (Some 7, None)"
    by (simp add: NewServer2_def NewServerFactory2_def NewServerFactory6_def)
  from header_protocol_shared [OF b1 refl refl, of 100 ?bits] b2 b3
  have b4: "filter is_GetProtocol (snd (processRequests ?bp 7 100 ?bits))
      = [CallGetProtocol Input (Some 7), CallGetProtocol Output (Some 7)]"
    by blast
  have b5: "CallProcess 0 Background (TBinaryProtocol 100 (Some 7) False True)
         (TBinaryProtocol 101 (Some 7) False True)
       \<in> set (snd (processRequests ?bp 7 100 ?bits))"
    by (simp add: processRequests_def NewServer2_def NewServerFactory2_def
        NewServerFactory6_def serve_def request_context_def deferred_closes_def Let_def)
  from h1 h2 h3 h4 h5 b2 b3 b4 b5 show ?thesis by blast
qed

subsection \<open>SetForwardHeaders\<close>

lemma length_foldl_assign [simp]: "length (foldl assign h ws) = length h"
  by (induction ws arbitrary: h) (simp_all add: assign_def split_beta)

lemma foldl_assign_other:
  "\<forall>w \<in> set ws. fst w < n \<Longrightarrow> n < length h \<Longrightarrow> foldl assign h ws ! n = h ! n"
proof (induction ws arbitrary: h)
  case Nil
  then show ?case by simp
next
  case (Cons w ws)
  from Cons.prems have "fst w \<noteq> n" by auto
  then have "assign h w ! n = h ! n"
    by (simp add: assign_def split_beta)
  moreover from Cons.prems have "n < length (assign h w)"
    by (simp add: assign_def split_beta)
  moreover from Cons.prems have "\<forall>w \<in> set ws. fst w < n" by simp
  ultimately show ?case using Cons.IH [of "assign h w"] by simp
qed

lemma SetForwardHeaders_nonempty:
  assumes "valid_slice h headers" and "0 < len headers"
  shows "SetForwardHeaders h p headers =
           (h @ [elems h headers], p\<lparr>forwardHeaders := Slice (length h) 0 (len headers)\<rparr>)"
proof (cases headers)
  case NilSlice
  with assms show ?thesis by simp
next
  case (Slice a off n)
  with assms have a: "a < length h" and n: "off + n \<le> length (h ! a)" and pos: "0 < n"
    by simp_all
  from n have l: "length (take n (drop off (h ! a))) = n" by simp
  from a have "(h @ [replicate n []]) ! a = h ! a" by (simp add: nth_append)
  with Slice pos l show ?thesis
    by (simp add: SetForwardHeaders_def make_slice_def Let_def)
qed

text \<open>
  C8. \<^verbatim>\<open>SetForwardHeaders\<close> with an empty list (nil or of length 0) sets the list of the
  server to nil and allocates nothing. With a non-empty list the server gets a slice of a
  fresh array that holds the elements of the argument, and no sequence of assignments to
  the cells of the arrays that existed before the call, the array of the caller's slice
  among them, changes what the slice of the server holds.
\<close>

theorem SetForwardHeaders_defensive_copy:
  assumes "valid_slice h headers"
    and "SetForwardHeaders h p headers = (h', p')"
  shows "(len headers = 0 \<longrightarrow> forwardHeaders p' = NilSlice \<and> h' = h)
       \<and> (0 < len headers \<longrightarrow>
            elems h' (forwardHeaders p') = elems h headers
            \<and> (\<forall>ws. (\<forall>w \<in> set ws. fst w < length h) \<longrightarrow>
                 elems (foldl assign h' ws) (forwardHeaders p') = elems h headers))"
proof (cases "len headers = 0")
  case True
  with assms(2) show ?thesis
    by (auto simp: SetForwardHeaders_def)
next
  case False
  then have pos: "0 < len headers" by simp
  from SetForwardHeaders_nonempty [OF assms(1) pos, of p] assms(2)
  have h': "h' = h @ [elems h headers]"
    and p': "forwardHeaders p' = Slice (length h) 0 (len headers)"
    by auto
  have full: "take (len headers) (elems h headers) = elems h headers"
    by (cases headers) simp_all
  have "elems (foldl assign h' ws) (forwardHeaders p') = elems h headers"
    if ws: "\<forall>w \<in> set ws. fst w < length h" for ws
  proof -
    from foldl_assign_other [OF ws, of h'] h'
    have "foldl assign h' ws ! length h = elems h headers" by simp
    with p' full show ?thesis by simp
  qed
  from this this [of "[]"] pos show ?thesis by simp
qed

theorem SetForwardHeaders_defensive_copy_witness:
  "valid_slice [[''a'', ''b'', ''c'']] (Slice 0 1 2)
   \<and> elems (fst (SetForwardHeaders [[''a'', ''b'', ''c'']] (NewServer2 0 0) (Slice 0 1 2)))
        (forwardHeaders (snd (SetForwardHeaders [[''a'', ''b'', ''c'']] (NewServer2 0 0)
           (Slice 0 1 2))))
     = [''b'', ''c'']
   \<and> elems (foldl assign
          (fst (SetForwardHeaders [[''a'', ''b'', ''c'']] (NewServer2 0 0) (Slice 0 1 2)))
          [(0, 1, ''x'')])
        (Slice 0 1 2)
     = [''x'', ''c'']
   \<and> elems (foldl assign
          (fst (SetForwardHeaders [[''a'', ''b'', ''c'']] (NewServer2 0 0) (Slice 0 1 2)))
          [(0, 1, ''x'')])
        (forwardHeaders (snd (SetForwardHeaders [[''a'', ''b'', ''c'']] (NewServer2 0 0)
           (Slice 0 1 2))))
     = [''b'', ''c'']
   \<and> forwardHeaders (snd (SetForwardHeaders
          (fst (SetForwardHeaders [[''a'', ''b'', ''c'']] (NewServer2 0 0) (Slice 0 1 2)))
          (snd (SetForwardHeaders [[''a'', ''b'', ''c'']] (NewServer2 0 0) (Slice 0 1 2)))
          (Slice 0 1 0)))
     = NilSlice"
proof -
  let ?h = "[[''a'', ''b'', ''c'']]"
  let ?r = "SetForwardHeaders ?h (NewServer2 0 0) (Slice 0 1 2)"
  have v: "valid_slice ?h (Slice 0 1 2)" by simp
  have e: "elems ?h (Slice 0 1 2) = [''b'', ''c'']" by simp
  have m: "elems (foldl assign (fst ?r) [(0, 1, ''x'')]) (Slice 0 1 2) = [''x'', ''c'']"
    by (simp add: SetForwardHeaders_def make_slice_def assign_def)
  from SetForwardHeaders_defensive_copy [OF v, of "NewServer2 0 0" "fst ?r" "snd ?r"] e
  have c: "elems (fst ?r) (forwardHeaders (snd ?r)) = [''b'', ''c'']"
    and w: "\<forall>ws. (\<forall>w \<in> set ws. fst w < length ?h) \<longrightarrow>
          elems (foldl assign (fst ?r) ws) (forwardHeaders (snd ?r)) = [''b'', ''c'']"
    by simp_all
  from w have w1: "elems (foldl assign (fst ?r) [(0, 1, ''x'')]) (forwardHeaders (snd ?r))
      = [''b'', ''c'']"
    by (simp del: foldl.simps elems.simps)
  have v0: "valid_slice (fst ?r) (Slice 0 1 0)"
    by (simp add: SetForwardHeaders_def make_slice_def)
  from SetForwardHeaders_defensive_copy [OF v0, of "snd ?r"
      "fst (SetForwardHeaders (fst ?r) (snd ?r) (Slice 0 1 0))"
      "snd (SetForwardHeaders (fst ?r) (snd ?r) (Slice 0 1 0))"]
  have z: "forwardHeaders (snd (SetForwardHeaders (fst ?r) (snd ?r) (Slice 0 1 0))) = NilSlice"
    by simp
  from v c m w1 z show ?thesis by blast
qed

end
